theory Spec2Isabelle
  imports Main "HOL-Library.Word"
begin

section \<open>Client-side pull certificate management (node-opcua-server-configuration)\<close>

text \<open>
  A shallow embedding of
  \<^verbatim>\<open>packages/node-opcua-server-configuration/source/clientTools/pull_certificate_management_client.ts\<close>:
  the class \<^verbatim>\<open>ClientPullCertificateManagement\<close> with its five asynchronous methods.
  An \<^verbatim>\<open>async\<close> method either resolves with a value or rejects with an error; the
  model returns \<open>Inr\<close> of the value or \<open>Inl\<close> of the error.
\<close>

subsection \<open>Imported types\<close>

type_synonym Buffer = "8 word list"

text \<open>
  Modelled from the spec: \<^verbatim>\<open>resolveNodeId\<close> and the class \<^verbatim>\<open>NodeId\<close> of package
  node-opcua-nodeid. The spec calls an identifier an opaque, stable reference to a remote
  entity; the model keeps the address text it was resolved from, so that two identifiers
  are equal exactly when their address texts are.
\<close>

datatype NodeId = ResolvedNodeId string

definition resolveNodeId :: "string \<Rightarrow> NodeId" where
  "resolveNodeId s = ResolvedNodeId s"

text \<open>
  The enumeration \<^verbatim>\<open>DataType\<close> of package node-opcua-variant (the built-in types of
  OPC UA, in their numbering order). The names \<open>Null\<close>, \<open>Boolean\<close>, \<open>String\<close>,
  \<open>ByteString\<close> and \<open>NodeId\<close> are the ones this file uses.
  \<open>StatusCodeType\<close> stands for the member \<^verbatim>\<open>DataType.StatusCode\<close>.
\<close>

datatype DataType =
    Null | Boolean | SByte | Byte | Int16 | UInt16 | Int32 | UInt32 | Int64 | UInt64
  | Float | Double | String | DateTime | Guid | ByteString | XmlElement | NodeId
  | ExpandedNodeId | StatusCodeType | QualifiedName | LocalizedText | ExtensionObject
  | DataValue | Variant | DiagnosticInfo

datatype VariantArrayType = Scalar | Array | Matrix

text \<open>
  The field \<^verbatim>\<open>value\<close> of a variant is untyped in the source (\<^verbatim>\<open>any\<close>). The model
  carries the shapes this client sends and reads; \<open>None\<close> in an optional position is
  JavaScript's \<^verbatim>\<open>undefined\<close> (a property that is missing or holds \<^verbatim>\<open>undefined\<close>).
\<close>

datatype Value =
    VBoolean bool
  | VString string
  | VNodeId NodeId
  | VByteString Buffer
  | VByteStringArray "Buffer list"

record VariantLike =
  dataType :: DataType
  arrayType :: "VariantArrayType option"
  value' :: "Value option"

text \<open>
  The table \<^verbatim>\<open>StatusCodes\<close> of package node-opcua-status-code. The source compares with
  \<^verbatim>\<open>StatusCodes.Good\<close> and produces \<^verbatim>\<open>BadInvalidArgument\<close> and \<^verbatim>\<open>BadInternalError\<close>;
  its comments name \<^verbatim>\<open>BadUserAccessDenied\<close> and \<^verbatim>\<open>BadSecurityChecksFailed\<close>. Every other
  entry of the table is \<open>OtherStatus\<close> with its number.
\<close>

datatype StatusCode =
    Good
  | BadInternalError
  | BadInvalidArgument
  | BadUserAccessDenied
  | BadSecurityChecksFailed
  | OtherStatus nat

record CallMethodRequestLike =
  inputArguments :: "VariantLike list"
  methodId :: NodeId
  objectId :: NodeId

text \<open>
  Every record the session or this client returns starts with a status code; the typed
  fields extend it. An optional field that the object literal leaves out is \<open>None\<close>.
\<close>

record StatusResult =
  statusCode :: StatusCode

record CallMethodResult = StatusResult +
  outputArguments :: "VariantLike list option"

text \<open>
  What a rejected promise carries: a \<^verbatim>\<open>TypeError\<close> of the runtime (a property read on
  \<^verbatim>\<open>undefined\<close>), or an \<^verbatim>\<open>Error\<close> with its message.
\<close>

datatype error = TypeError | Error string

text \<open>
  \<^verbatim>\<open>IBasicSession\<close>: the one capability used is \<^verbatim>\<open>call\<close>, which resolves with a
  \<^verbatim>\<open>CallMethodResult\<close> or rejects.
\<close>

type_synonym IBasicSession = "CallMethodRequestLike \<Rightarrow> error + CallMethodResult"

subsection \<open>Fixed identifiers\<close>

definition serverConfigurationNodeId :: NodeId where
  "serverConfigurationNodeId = resolveNodeId ''i=12637''"

definition createSigningRequestMethod :: NodeId where
  "createSigningRequestMethod = resolveNodeId ''i=12737''"

definition getRejectedListMethod :: NodeId where
  "getRejectedListMethod = resolveNodeId ''i=12777''"

definition updateCertificateMethod :: NodeId where
  "updateCertificateMethod = resolveNodeId ''i=13737''"

definition certificateGroups :: NodeId where
  "certificateGroups = resolveNodeId ''i=14053''"

definition defaultApplicationGroup :: NodeId where
  "defaultApplicationGroup = resolveNodeId ''i=14156''"

definition applyChangesMethod :: NodeId where
  "applyChangesMethod = resolveNodeId ''i=12740''"

definition rsaSha256ApplicationCertificateType :: NodeId where
  "rsaSha256ApplicationCertificateType = resolveNodeId ''i=12560''"

subsection \<open>Result records\<close>

record CreateSigningRequestResult = StatusResult +
  certificateSigningRequest :: "Value option"

record GetRejectedListResult = StatusResult +
  certificates :: "Value option"

record UpdateCertificateResult = StatusResult +
  applyChangeRequired :: "Value option"

subsection \<open>JavaScript primitives the methods rely on\<close>

text \<open>
  Truthiness: \<^verbatim>\<open>undefined\<close> is falsy, a boolean is itself, a string is truthy unless
  empty, an object (a \<^verbatim>\<open>Buffer\<close>, whatever its length) is truthy.
\<close>

definition truthy_boolean :: "bool option \<Rightarrow> bool" where
  "truthy_boolean b = (case b of None \<Rightarrow> False | Some x \<Rightarrow> x)"

definition truthy_string :: "string option \<Rightarrow> bool" where
  "truthy_string s = (case s of None \<Rightarrow> False | Some x \<Rightarrow> x \<noteq> [])"

definition truthy_object :: "'a option \<Rightarrow> bool" where
  "truthy_object x = (case x of None \<Rightarrow> False | Some _ \<Rightarrow> True)"

text \<open>
  \<^verbatim>\<open>callMethodResult.outputArguments![0]\<close> followed by a property read: the \<^verbatim>\<open>!\<close> is
  erased by the compiler, so indexing \<^verbatim>\<open>undefined\<close> throws a \<^verbatim>\<open>TypeError\<close>, and so does
  the property read on the \<^verbatim>\<open>undefined\<close> that index 0 of an empty array gives.
\<close>

definition first_output :: "VariantLike list option \<Rightarrow> error + VariantLike" where
  "first_output outs =
     (case outs of
        None \<Rightarrow> Inl TypeError
      | Some [] \<Rightarrow> Inl TypeError
      | Some (v # _) \<Rightarrow> Inr v)"

subsection \<open>createSigningRequest\<close>

definition createSigningRequest_methodToCall ::
  "NodeId \<Rightarrow> NodeId \<Rightarrow> string \<Rightarrow> bool option \<Rightarrow> Buffer option \<Rightarrow> CallMethodRequestLike" where
  "createSigningRequest_methodToCall certificateGroupId certificateTypeId subjectName
       regeneratePrivateKey nonce =
     \<lparr> inputArguments =
         [ \<lparr> dataType = NodeId, arrayType = None, value' = Some (VNodeId certificateGroupId) \<rparr>,
           \<lparr> dataType = NodeId, arrayType = None, value' = Some (VNodeId certificateTypeId) \<rparr>,
           \<lparr> dataType = String, arrayType = None, value' = Some (VString subjectName) \<rparr>,
           \<lparr> dataType = Boolean, arrayType = None,
             value' = Some (VBoolean (truthy_boolean regeneratePrivateKey)) \<rparr>,
           \<lparr> dataType = (if truthy_object nonce then ByteString else Null), arrayType = None,
             value' = map_option VByteString nonce \<rparr> ],
       methodId = createSigningRequestMethod,
       objectId = serverConfigurationNodeId \<rparr>"

definition createSigningRequest ::
  "IBasicSession \<Rightarrow> NodeId \<Rightarrow> NodeId \<Rightarrow> string \<Rightarrow> bool option \<Rightarrow> Buffer option
     \<Rightarrow> error + CreateSigningRequestResult" where
  "createSigningRequest session certificateGroupId certificateTypeId subjectName
       regeneratePrivateKey nonce =
     (case session (createSigningRequest_methodToCall certificateGroupId certificateTypeId
                      subjectName regeneratePrivateKey nonce) of
        Inl e \<Rightarrow> Inl e
      | Inr callMethodResult \<Rightarrow>
          if statusCode callMethodResult = Good then
            (case first_output (outputArguments callMethodResult) of
               Inl e \<Rightarrow> Inl e
             | Inr out0 \<Rightarrow>
                 Inr \<lparr> statusCode = statusCode callMethodResult,
                       certificateSigningRequest = value' out0 \<rparr>)
          else
            Inr \<lparr> statusCode = statusCode callMethodResult,
                  certificateSigningRequest = None \<rparr>)"

subsection \<open>getRejectedList\<close>

definition getRejectedList_methodToCall :: CallMethodRequestLike where
  "getRejectedList_methodToCall =
     \<lparr> inputArguments = [],
       methodId = getRejectedListMethod,
       objectId = serverConfigurationNodeId \<rparr>"

definition getRejectedList :: "IBasicSession \<Rightarrow> error + GetRejectedListResult" where
  "getRejectedList session =
     (case session getRejectedList_methodToCall of
        Inl e \<Rightarrow> Inl e
      | Inr callMethodResult \<Rightarrow>
          if statusCode callMethodResult = Good then
            (case first_output (outputArguments callMethodResult) of
               Inl e \<Rightarrow> Inl e
             | Inr out0 \<Rightarrow>
                 if dataType out0 \<noteq> ByteString then
                   Inr \<lparr> statusCode = BadInvalidArgument, certificates = None \<rparr>
                 else
                   Inr \<lparr> statusCode = statusCode callMethodResult,
                         certificates = value' out0 \<rparr>)
          else
            Inr \<lparr> statusCode = statusCode callMethodResult, certificates = None \<rparr>)"

subsection \<open>updateCertificate\<close>

definition updateCertificate_methodToCall ::
  "NodeId \<Rightarrow> NodeId \<Rightarrow> Buffer \<Rightarrow> Buffer list \<Rightarrow> string option \<Rightarrow> Buffer option
     \<Rightarrow> CallMethodRequestLike" where
  "updateCertificate_methodToCall certificateGroupId certificateTypeId certificate
       issuerCertificates privateKeyFormat privateKey =
     \<lparr> inputArguments =
         [ \<lparr> dataType = NodeId, arrayType = None, value' = Some (VNodeId certificateGroupId) \<rparr>,
           \<lparr> dataType = NodeId, arrayType = None, value' = Some (VNodeId certificateTypeId) \<rparr>,
           \<lparr> dataType = ByteString, arrayType = None, value' = Some (VByteString certificate) \<rparr>,
           \<lparr> dataType = ByteString, arrayType = Some Array,
             value' = Some (VByteStringArray issuerCertificates) \<rparr>,
           (if truthy_string privateKeyFormat
            then \<lparr> dataType = String, arrayType = None,
                   value' = map_option VString privateKeyFormat \<rparr>
            else \<lparr> dataType = Null, arrayType = None, value' = None \<rparr>),
           (if truthy_string privateKeyFormat
            then \<lparr> dataType = ByteString, arrayType = None,
                   value' = map_option VByteString privateKey \<rparr>
            else \<lparr> dataType = Null, arrayType = None, value' = None \<rparr>) ],
       methodId = updateCertificateMethod,
       objectId = serverConfigurationNodeId \<rparr>"

definition updateCertificate ::
  "IBasicSession \<Rightarrow> NodeId \<Rightarrow> NodeId \<Rightarrow> Buffer \<Rightarrow> Buffer list \<Rightarrow> string option
     \<Rightarrow> Buffer option \<Rightarrow> error + UpdateCertificateResult" where
  "updateCertificate session certificateGroupId certificateTypeId certificate
       issuerCertificates privateKeyFormat privateKey =
     (case session (updateCertificate_methodToCall certificateGroupId certificateTypeId
                      certificate issuerCertificates privateKeyFormat privateKey) of
        Inl e \<Rightarrow> Inl e
      | Inr callMethodResult \<Rightarrow>
          if statusCode callMethodResult = Good then
            (case outputArguments callMethodResult of
               None \<Rightarrow> Inr \<lparr> statusCode = BadInternalError, applyChangeRequired = None \<rparr>
             | Some outs \<Rightarrow>
                 if length outs \<noteq> 1 then
                   Inr \<lparr> statusCode = BadInternalError, applyChangeRequired = None \<rparr>
                 else
                   (case first_output (Some outs) of
                      Inl e \<Rightarrow> Inl e
                    | Inr out0 \<Rightarrow>
                        Inr \<lparr> statusCode = statusCode callMethodResult,
                              applyChangeRequired = value' out0 \<rparr>))
          else
            Inr \<lparr> statusCode = statusCode callMethodResult, applyChangeRequired = None \<rparr>)"

subsection \<open>applyChanges\<close>

definition applyChanges_methodToCall :: CallMethodRequestLike where
  "applyChanges_methodToCall =
     \<lparr> inputArguments = [],
       methodId = applyChangesMethod,
       objectId = serverConfigurationNodeId \<rparr>"

definition applyChanges :: "IBasicSession \<Rightarrow> error + StatusCode" where
  "applyChanges session =
     (case session applyChanges_methodToCall of
        Inl e \<Rightarrow> Inl e
      | Inr callMethodResult \<Rightarrow>
          (case outputArguments callMethodResult of
             None \<Rightarrow> Inr (statusCode callMethodResult)
           | Some outs \<Rightarrow>
               if length outs \<noteq> 0 then Inl (Error ''Invalid  output arguments'')
               else Inr (statusCode callMethodResult)))"

subsection \<open>getCertificateGroupId\<close>

definition getCertificateGroupId :: "string \<Rightarrow> error + NodeId" where
  "getCertificateGroupId certificateGroupName =
     (if certificateGroupName = ''DefaultApplicationGroup'' then Inr defaultApplicationGroup
      else Inl (Error ''Not Implemented yet''))"

subsection \<open>A session that answers with a fixed result\<close>

text \<open>
  The examples below run the methods against a session whose \<^verbatim>\<open>call\<close> resolves every
  request with the same \<^verbatim>\<open>CallMethodResult\<close>.
\<close>

definition replying :: "CallMethodResult \<Rightarrow> IBasicSession" where
  "replying callMethodResult methodToCall = Inr callMethodResult"

section \<open>Properties\<close>

text \<open>
  C7. The group resolver maps the exact name \<^verbatim>\<open>DefaultApplicationGroup\<close> to the fixed
  identifier of the default application group (\<^verbatim>\<open>i=14156\<close>), and rejects every other
  name with the error "Not Implemented yet" instead of returning an identifier.
\<close>

theorem getCertificateGroupId_resolves_default_only:
  "getCertificateGroupId ''DefaultApplicationGroup'' = Inr (resolveNodeId ''i=14156'')
   \<and> (\<forall>name. name \<noteq> ''DefaultApplicationGroup''
         \<longrightarrow> getCertificateGroupId name = Inl (Error ''Not Implemented yet''))"
  by (simp add: getCertificateGroupId_def defaultApplicationGroup_def)

theorem getCertificateGroupId_resolves_default_only_witness:
  "''defaultapplicationgroup'' \<noteq> ''DefaultApplicationGroup''
   \<and> getCertificateGroupId ''defaultapplicationgroup'' = Inl (Error ''Not Implemented yet'')"
  using getCertificateGroupId_resolves_default_only by simp

text \<open>
  C8. When the session answers \<^verbatim>\<open>createSigningRequest\<close> with status \<open>Good\<close> and exactly
  one output of kind Raw-Bytes (data type \<open>ByteString\<close>), the method resolves with status
  \<open>Good\<close> and \<open>certificateSigningRequest\<close> equal to the content of that output. The
  example is scenario A: the bytes \<open>0xAA 0xBB\<close>.
\<close>

theorem createSigningRequest_returns_signing_request:
  assumes "session (createSigningRequest_methodToCall g t s r n) = Inr res"
    and "statusCode res = Good"
    and "outputArguments res = Some [v]"
    and "dataType v = ByteString"
    and "arrayType v = Some Scalar"
    and "value' v = Some (VByteString bytes)"
  shows "createSigningRequest session g t s r n =
           Inr \<lparr> statusCode = Good, certificateSigningRequest = Some (VByteString bytes) \<rparr>"
  using assms by (simp add: createSigningRequest_def first_output_def)

theorem createSigningRequest_returns_signing_request_witness:
  "createSigningRequest
     (replying \<lparr> statusCode = Good,
                 outputArguments = Some [\<lparr> dataType = ByteString, arrayType = Some Scalar,
                                           value' = Some (VByteString [0xAA, 0xBB]) \<rparr>] \<rparr>)
     defaultApplicationGroup rsaSha256ApplicationCertificateType ''CN=Server/O=Org'' None None
   = Inr \<lparr> statusCode = Good, certificateSigningRequest = Some (VByteString [0xAA, 0xBB]) \<rparr>"
proof -
  let ?v = "\<lparr> dataType = ByteString, arrayType = Some Scalar,
                 value' = Some (VByteString [0xAA, 0xBB]) \<rparr>"
  let ?res = "\<lparr> statusCode = Good, outputArguments = Some [?v] \<rparr>"
  show ?thesis
    by (rule createSigningRequest_returns_signing_request [where res = ?res and v = ?v])
       (simp_all add: replying_def)
qed

text \<open>
  C2. \<^verbatim>\<open>applyChanges\<close>: whatever the status, a non-empty sequence of outputs makes the
  method throw the error "Invalid  output arguments" instead of returning a status; with an
  empty sequence (or none at all) it returns the status of the session's result unchanged.
\<close>

theorem applyChanges_throws_on_any_output:
  assumes "session applyChanges_methodToCall = Inr res"
  shows "(\<forall>outs. outputArguments res = Some outs \<and> outs \<noteq> []
            \<longrightarrow> applyChanges session = Inl (Error ''Invalid  output arguments''))
       \<and> (outputArguments res = Some [] \<or> outputArguments res = None
            \<longrightarrow> applyChanges session = Inr (statusCode res))"
  using assms by (auto simp add: applyChanges_def)

theorem applyChanges_throws_on_any_output_witness:
  "applyChanges
     (replying \<lparr> statusCode = BadUserAccessDenied,
                 outputArguments = Some [\<lparr> dataType = Boolean, arrayType = Some Scalar,
                                           value' = Some (VBoolean True) \<rparr>] \<rparr>)
     = Inl (Error ''Invalid  output arguments'')
   \<and> applyChanges
       (replying \<lparr> statusCode = Good,
                   outputArguments = Some [\<lparr> dataType = Boolean, arrayType = Some Scalar,
                                             value' = Some (VBoolean True) \<rparr>] \<rparr>)
     = Inl (Error ''Invalid  output arguments'')
   \<and> applyChanges (replying \<lparr> statusCode = Good, outputArguments = Some [] \<rparr>) = Inr Good
   \<and> applyChanges (replying \<lparr> statusCode = BadUserAccessDenied, outputArguments = None \<rparr>)
     = Inr BadUserAccessDenied"
proof -
  let ?v = "\<lparr> dataType = Boolean, arrayType = Some Scalar, value' = Some (VBoolean True) \<rparr>"
  let ?denied = "\<lparr> statusCode = BadUserAccessDenied, outputArguments = Some [?v] \<rparr>"
  let ?good = "\<lparr> statusCode = Good, outputArguments = Some [?v] \<rparr>"
  let ?empty = "\<lparr> statusCode = Good, outputArguments = Some [] \<rparr>"
  let ?absent = "\<lparr> statusCode = BadUserAccessDenied, outputArguments = None \<rparr>"
  have a: "applyChanges (replying ?denied) = Inl (Error ''Invalid  output arguments'')"
    using applyChanges_throws_on_any_output [where session = "replying ?denied" and res = ?denied]
    by (simp add: replying_def)
  have b: "applyChanges (replying ?good) = Inl (Error ''Invalid  output arguments'')"
    using applyChanges_throws_on_any_output [where session = "replying ?good" and res = ?good]
    by (simp add: replying_def)
  have c: "applyChanges (replying ?empty) = Inr Good"
    using applyChanges_throws_on_any_output [where session = "replying ?empty" and res = ?empty]
    by (simp add: replying_def)
  have d: "applyChanges (replying ?absent) = Inr BadUserAccessDenied"
    using applyChanges_throws_on_any_output [where session = "replying ?absent" and res = ?absent]
    by (simp add: replying_def)
  from a b c d show ?thesis by simp
qed

text \<open>
  C3. \<^verbatim>\<open>updateCertificate\<close>, when the session answers with status \<open>Good\<close>: if the outputs
  are missing or their number is not one, the method resolves with status
  \<open>BadInternalError\<close> and no \<open>applyChangeRequired\<close>; if there is exactly one output, it
  resolves with status \<open>Good\<close> and \<open>applyChangeRequired\<close> equal to the content of that
  output. The example for one output is scenario D (the boolean \<open>true\<close>).
\<close>

theorem updateCertificate_checks_output_count:
  assumes "session (updateCertificate_methodToCall g t c i f k) = Inr res"
    and "statusCode res = Good"
  shows "(outputArguments res = None
            \<or> (\<exists>outs. outputArguments res = Some outs \<and> length outs \<noteq> 1)
          \<longrightarrow> updateCertificate session g t c i f k =
                Inr \<lparr> statusCode = BadInternalError, applyChangeRequired = None \<rparr>)
       \<and> (\<forall>v. outputArguments res = Some [v]
            \<longrightarrow> updateCertificate session g t c i f k =
                  Inr \<lparr> statusCode = Good, applyChangeRequired = value' v \<rparr>)"
  using assms by (auto simp add: updateCertificate_def first_output_def)

theorem updateCertificate_checks_output_count_witness:
  "updateCertificate
     (replying \<lparr> statusCode = Good,
                 outputArguments = Some [\<lparr> dataType = Boolean, arrayType = Some Scalar,
                                           value' = Some (VBoolean True) \<rparr>] \<rparr>)
     defaultApplicationGroup rsaSha256ApplicationCertificateType [0x30, 0x82] [] None None
     = Inr \<lparr> statusCode = Good, applyChangeRequired = Some (VBoolean True) \<rparr>
   \<and> updateCertificate
       (replying \<lparr> statusCode = Good, outputArguments = None \<rparr>)
       defaultApplicationGroup rsaSha256ApplicationCertificateType [0x30, 0x82] [] None None
     = Inr \<lparr> statusCode = BadInternalError, applyChangeRequired = None \<rparr>
   \<and> updateCertificate
       (replying \<lparr> statusCode = Good, outputArguments = Some [] \<rparr>)
       defaultApplicationGroup rsaSha256ApplicationCertificateType [0x30, 0x82] [] None None
     = Inr \<lparr> statusCode = BadInternalError, applyChangeRequired = None \<rparr>
   \<and> updateCertificate
       (replying \<lparr> statusCode = Good,
                   outputArguments = Some [\<lparr> dataType = Boolean, arrayType = Some Scalar,
                                             value' = Some (VBoolean True) \<rparr>,
                                           \<lparr> dataType = Boolean, arrayType = Some Scalar,
                                             value' = Some (VBoolean True) \<rparr>] \<rparr>)
       defaultApplicationGroup rsaSha256ApplicationCertificateType [0x30, 0x82] [] None None
     = Inr \<lparr> statusCode = BadInternalError, applyChangeRequired = None \<rparr>"
proof -
  let ?v = "\<lparr> dataType = Boolean, arrayType = Some Scalar, value' = Some (VBoolean True) \<rparr>"
  let ?one = "\<lparr> statusCode = Good, outputArguments = Some [?v] \<rparr>"
  let ?absent = "\<lparr> statusCode = Good, outputArguments = None \<rparr>"
  let ?empty = "\<lparr> statusCode = Good, outputArguments = Some [] \<rparr>"
  let ?two = "\<lparr> statusCode = Good, outputArguments = Some [?v, ?v] \<rparr>"
  note inst = updateCertificate_checks_output_count
    [where g = defaultApplicationGroup and t = rsaSha256ApplicationCertificateType
       and c = "[0x30, 0x82]" and i = "[]" and f = None and k = None]
  have a: "updateCertificate (replying ?one) defaultApplicationGroup
             rsaSha256ApplicationCertificateType [0x30, 0x82] [] None None
           = Inr \<lparr> statusCode = Good, applyChangeRequired = Some (VBoolean True) \<rparr>"
    using inst [where session = "replying ?one" and res = ?one] by (simp add: replying_def)
  have b: "updateCertificate (replying ?absent) defaultApplicationGroup
             rsaSha256ApplicationCertificateType [0x30, 0x82] [] None None
           = Inr \<lparr> statusCode = BadInternalError, applyChangeRequired = None \<rparr>"
    using inst [where session = "replying ?absent" and res = ?absent] by (simp add: replying_def)
  have c: "updateCertificate (replying ?empty) defaultApplicationGroup
             rsaSha256ApplicationCertificateType [0x30, 0x82] [] None None
           = Inr \<lparr> statusCode = BadInternalError, applyChangeRequired = None \<rparr>"
    using inst [where session = "replying ?empty" and res = ?empty] by (simp add: replying_def)
  have d: "updateCertificate (replying ?two) defaultApplicationGroup
             rsaSha256ApplicationCertificateType [0x30, 0x82] [] None None
           = Inr \<lparr> statusCode = BadInternalError, applyChangeRequired = None \<rparr>"
    using inst [where session = "replying ?two" and res = ?two] by (simp add: replying_def)
  from a b c d show ?thesis by simp
qed

text \<open>
  C1. A successful answer to \<^verbatim>\<open>getRejectedList\<close> whose single output is not of kind
  Raw-Bytes-Sequence must give status \<open>BadInvalidArgument\<close> and no \<open>certificates\<close>.
  The kind Raw-Bytes-Sequence is the data type \<open>ByteString\<close> with array type \<open>Array\<close>
  (as \<^verbatim>\<open>updateCertificate\<close> tags its issuer certificates), and the result field is
  declared \<^verbatim>\<open>certificates?: Buffer[]\<close>. The guard of the method compares the data type
  and leaves the array type out, so the code breaks the claim at a single scalar
  \<open>ByteString\<close> output: that output is not of kind Raw-Bytes-Sequence, and the method
  resolves with status \<open>Good\<close> and the lone buffer in \<open>certificates\<close>, not with
  \<open>BadInvalidArgument\<close>.
\<close>

theorem getRejectedList_returns_scalar_as_certificates:
  "\<not> (dataType \<lparr> dataType = ByteString, arrayType = Some Scalar,
                   value' = Some (VByteString [0x30, 0x82]) \<rparr> = ByteString
       \<and> arrayType \<lparr> dataType = ByteString, arrayType = Some Scalar,
                      value' = Some (VByteString [0x30, 0x82]) \<rparr> = Some Array)
   \<and> getRejectedList
       (replying \<lparr> statusCode = Good,
                   outputArguments = Some [\<lparr> dataType = ByteString, arrayType = Some Scalar,
                                             value' = Some (VByteString [0x30, 0x82]) \<rparr>] \<rparr>)
     = Inr \<lparr> statusCode = Good, certificates = Some (VByteString [0x30, 0x82]) \<rparr>
   \<and> getRejectedList
       (replying \<lparr> statusCode = Good,
                   outputArguments = Some [\<lparr> dataType = ByteString, arrayType = Some Scalar,
                                             value' = Some (VByteString [0x30, 0x82]) \<rparr>] \<rparr>)
     \<noteq> Inr \<lparr> statusCode = BadInvalidArgument, certificates = None \<rparr>"
  by (simp add: getRejectedList_def replying_def first_output_def)

text \<open>
  Where the guard of \<^verbatim>\<open>getRejectedList\<close> does what is asked of it: on status \<open>Good\<close>
  with a single output, a data type other than \<open>ByteString\<close> gives status
  \<open>BadInvalidArgument\<close> and no \<open>certificates\<close>, and an output of kind
  Raw-Bytes-Sequence gives status \<open>Good\<close> with \<open>certificates\<close> equal to that
  sequence. Nothing is said here about a \<open>ByteString\<close> output that is not an array.
\<close>

lemma getRejectedList_guard_on_data_type:
  assumes "session getRejectedList_methodToCall = Inr res"
    and "statusCode res = Good"
    and "outputArguments res = Some [v]"
  shows "(dataType v \<noteq> ByteString
            \<longrightarrow> getRejectedList session =
                  Inr \<lparr> statusCode = BadInvalidArgument, certificates = None \<rparr>)
       \<and> (dataType v = ByteString \<and> arrayType v = Some Array
            \<longrightarrow> getRejectedList session =
                  Inr \<lparr> statusCode = Good, certificates = value' v \<rparr>)"
  using assms by (simp add: getRejectedList_def first_output_def)

lemma getRejectedList_guard_on_data_type_example:
  "getRejectedList
     (replying \<lparr> statusCode = Good,
                 outputArguments = Some [\<lparr> dataType = String, arrayType = Some Scalar,
                                           value' = Some (VString ''rejected'') \<rparr>] \<rparr>)
     = Inr \<lparr> statusCode = BadInvalidArgument, certificates = None \<rparr>
   \<and> getRejectedList
       (replying \<lparr> statusCode = Good,
                   outputArguments =
                     Some [\<lparr> dataType = ByteString, arrayType = Some Array,
                             value' = Some (VByteStringArray [[0x30, 0x82], [0x30, 0x81]]) \<rparr>] \<rparr>)
     = Inr \<lparr> statusCode = Good,
             certificates = Some (VByteStringArray [[0x30, 0x82], [0x30, 0x81]]) \<rparr>"
proof -
  let ?text = "\<lparr> dataType = String, arrayType = Some Scalar,
                  value' = Some (VString ''rejected'') \<rparr>"
  let ?list = "\<lparr> dataType = ByteString, arrayType = Some Array,
                  value' = Some (VByteStringArray [[0x30, 0x82], [0x30, 0x81]]) \<rparr>"
  let ?bad = "\<lparr> statusCode = Good, outputArguments = Some [?text] \<rparr>"
  let ?ok = "\<lparr> statusCode = Good, outputArguments = Some [?list] \<rparr>"
  have a: "getRejectedList (replying ?bad)
           = Inr \<lparr> statusCode = BadInvalidArgument, certificates = None \<rparr>"
    using getRejectedList_guard_on_data_type
            [where session = "replying ?bad" and res = ?bad and v = ?text]
    by (simp add: replying_def)
  have b: "getRejectedList (replying ?ok)
           = Inr \<lparr> statusCode = Good,
                   certificates = Some (VByteStringArray [[0x30, 0x82], [0x30, 0x81]]) \<rparr>"
    using getRejectedList_guard_on_data_type
            [where session = "replying ?ok" and res = ?ok and v = ?list]
    by (simp add: replying_def)
  from a b show ?thesis by simp
qed

text \<open>
  C4. When the status of the session's result is not \<open>Good\<close>, each of
  \<^verbatim>\<open>createSigningRequest\<close>, \<^verbatim>\<open>getRejectedList\<close> and \<^verbatim>\<open>updateCertificate\<close> resolves (it does
  not throw) with a record that holds exactly that status and no typed field, whatever
  outputs the result carries. The example for \<^verbatim>\<open>updateCertificate\<close> is scenario B.
\<close>

theorem failure_status_is_propagated:
  "(session (createSigningRequest_methodToCall g t s r n) = Inr res \<and> statusCode res \<noteq> Good
      \<longrightarrow> createSigningRequest session g t s r n =
            Inr \<lparr> statusCode = statusCode res, certificateSigningRequest = None \<rparr>)
   \<and> (session getRejectedList_methodToCall = Inr res \<and> statusCode res \<noteq> Good
      \<longrightarrow> getRejectedList session =
            Inr \<lparr> statusCode = statusCode res, certificates = None \<rparr>)
   \<and> (session (updateCertificate_methodToCall g t c i f k) = Inr res \<and> statusCode res \<noteq> Good
      \<longrightarrow> updateCertificate session g t c i f k =
            Inr \<lparr> statusCode = statusCode res, applyChangeRequired = None \<rparr>)"
  by (simp add: createSigningRequest_def getRejectedList_def updateCertificate_def)

theorem failure_status_is_propagated_witness:
  "createSigningRequest
     (replying \<lparr> statusCode = BadUserAccessDenied,
                 outputArguments = Some [\<lparr> dataType = ByteString, arrayType = Some Scalar,
                                           value' = Some (VByteString [0xAA, 0xBB]) \<rparr>] \<rparr>)
     defaultApplicationGroup rsaSha256ApplicationCertificateType ''CN=Server/O=Org'' None None
     = Inr \<lparr> statusCode = BadUserAccessDenied, certificateSigningRequest = None \<rparr>
   \<and> getRejectedList
       (replying \<lparr> statusCode = BadUserAccessDenied,
                   outputArguments = Some [\<lparr> dataType = ByteString, arrayType = Some Scalar,
                                             value' = Some (VByteString [0xAA, 0xBB]) \<rparr>] \<rparr>)
     = Inr \<lparr> statusCode = BadUserAccessDenied, certificates = None \<rparr>
   \<and> updateCertificate
       (replying \<lparr> statusCode = BadUserAccessDenied,
                   outputArguments = Some [\<lparr> dataType = ByteString, arrayType = Some Scalar,
                                             value' = Some (VByteString [0xAA, 0xBB]) \<rparr>] \<rparr>)
       defaultApplicationGroup rsaSha256ApplicationCertificateType [0x30, 0x82] [] None None
     = Inr \<lparr> statusCode = BadUserAccessDenied, applyChangeRequired = None \<rparr>"
proof -
  let ?v = "\<lparr> dataType = ByteString, arrayType = Some Scalar,
               value' = Some (VByteString [0xAA, 0xBB]) \<rparr>"
  let ?res = "\<lparr> statusCode = BadUserAccessDenied, outputArguments = Some [?v] \<rparr>"
  show ?thesis
    using failure_status_is_propagated
            [where session = "replying ?res" and res = ?res
               and g = defaultApplicationGroup and t = rsaSha256ApplicationCertificateType
               and s = "''CN=Server/O=Org''" and r = None and n = None
               and c = "[0x30, 0x82]" and i = "[]" and f = None and k = None]
    by (simp add: replying_def)
qed

text \<open>
  C5. The request that \<^verbatim>\<open>createSigningRequest\<close> hands to the session has exactly five
  arguments, in this order: the certificate group (data type \<open>NodeId\<close>), the certificate
  type (\<open>NodeId\<close>), the subject name (\<open>String\<close>), the regenerate-private-key flag
  (\<open>Boolean\<close>, false when the parameter is not given) and the entropy (\<open>ByteString\<close> with
  the nonce when one is given, \<open>Null\<close> with no content when none is).
\<close>

theorem createSigningRequest_argument_schema:
  "length (inputArguments (createSigningRequest_methodToCall g t s r n)) = 5
   \<and> map dataType (inputArguments (createSigningRequest_methodToCall g t s r (Some nonce)))
       = [NodeId, NodeId, String, Boolean, ByteString]
   \<and> map dataType (inputArguments (createSigningRequest_methodToCall g t s r None))
       = [NodeId, NodeId, String, Boolean, Null]
   \<and> map value' (inputArguments (createSigningRequest_methodToCall g t s (Some b) n))
       = [Some (VNodeId g), Some (VNodeId t), Some (VString s), Some (VBoolean b),
          map_option VByteString n]
   \<and> map value' (inputArguments (createSigningRequest_methodToCall g t s None n))
       = [Some (VNodeId g), Some (VNodeId t), Some (VString s), Some (VBoolean False),
          map_option VByteString n]
   \<and> methodId (createSigningRequest_methodToCall g t s r n) = createSigningRequestMethod
   \<and> objectId (createSigningRequest_methodToCall g t s r n) = serverConfigurationNodeId"
  by (simp add: createSigningRequest_methodToCall_def truthy_boolean_def truthy_object_def)

text \<open>
  C6. In the request that \<^verbatim>\<open>updateCertificate\<close> hands to the session, which has six
  arguments, the fifth (the private key format) has a data type other than \<open>Null\<close> if and
  only if the sixth (the private key) has: both are gated on the same test.
\<close>

theorem updateCertificate_key_and_format_kinds_agree:
  "length (inputArguments (updateCertificate_methodToCall g t c i f k)) = 6
   \<and> (dataType (inputArguments (updateCertificate_methodToCall g t c i f k) ! 4) \<noteq> Null)
       = (dataType (inputArguments (updateCertificate_methodToCall g t c i f k) ! 5) \<noteq> Null)"
  by (simp add: updateCertificate_methodToCall_def nth_Cons')

text \<open>
  C9. When the session answers with status \<open>Good\<close> and the outputs are empty or missing,
  \<^verbatim>\<open>createSigningRequest\<close> and \<^verbatim>\<open>getRejectedList\<close> return no record at all: reading the
  first output throws a \<open>TypeError\<close>. \<^verbatim>\<open>updateCertificate\<close> checks the number of outputs
  first and resolves with status \<open>BadInternalError\<close> on the same result.
\<close>

theorem missing_output_is_a_runtime_error:
  "(session (createSigningRequest_methodToCall g t s r n) = Inr res \<and> statusCode res = Good
      \<and> (outputArguments res = None \<or> outputArguments res = Some [])
      \<longrightarrow> createSigningRequest session g t s r n = Inl TypeError)
   \<and> (session getRejectedList_methodToCall = Inr res \<and> statusCode res = Good
      \<and> (outputArguments res = None \<or> outputArguments res = Some [])
      \<longrightarrow> getRejectedList session = Inl TypeError)
   \<and> (session (updateCertificate_methodToCall g t c i f k) = Inr res \<and> statusCode res = Good
      \<and> (outputArguments res = None \<or> outputArguments res = Some [])
      \<longrightarrow> updateCertificate session g t c i f k =
            Inr \<lparr> statusCode = BadInternalError, applyChangeRequired = None \<rparr>)"
  by (auto simp add: createSigningRequest_def getRejectedList_def updateCertificate_def
        first_output_def)

theorem missing_output_is_a_runtime_error_witness:
  "createSigningRequest (replying \<lparr> statusCode = Good, outputArguments = Some [] \<rparr>)
     defaultApplicationGroup rsaSha256ApplicationCertificateType ''CN=Server/O=Org'' None None
     = Inl TypeError
   \<and> createSigningRequest (replying \<lparr> statusCode = Good, outputArguments = None \<rparr>)
       defaultApplicationGroup rsaSha256ApplicationCertificateType ''CN=Server/O=Org'' None None
     = Inl TypeError
   \<and> getRejectedList (replying \<lparr> statusCode = Good, outputArguments = Some [] \<rparr>)
     = Inl TypeError
   \<and> getRejectedList (replying \<lparr> statusCode = Good, outputArguments = None \<rparr>)
     = Inl TypeError
   \<and> updateCertificate (replying \<lparr> statusCode = Good, outputArguments = Some [] \<rparr>)
       defaultApplicationGroup rsaSha256ApplicationCertificateType [0x30, 0x82] [] None None
     = Inr \<lparr> statusCode = BadInternalError, applyChangeRequired = None \<rparr>"
proof -
  let ?empty = "\<lparr> statusCode = Good, outputArguments = Some [] \<rparr>"
  let ?absent = "\<lparr> statusCode = Good, outputArguments = None \<rparr>"
  note inst = missing_output_is_a_runtime_error
    [where g = defaultApplicationGroup and t = rsaSha256ApplicationCertificateType
       and s = "''CN=Server/O=Org''" and r = None and n = None
       and c = "[0x30, 0x82]" and i = "[]" and f = None and k = None]
  show ?thesis
    using inst [where session = "replying ?empty" and res = ?empty]
          inst [where session = "replying ?absent" and res = ?absent]
    by (simp add: replying_def)
qed

text \<open>
  C10. \<^verbatim>\<open>updateCertificate\<close> decides both private key positions by the truthiness of
  \<^verbatim>\<open>privateKeyFormat\<close> alone. With a private key and a format that is missing or the
  empty string, the fifth and sixth arguments are both \<open>Null\<close> with no content, and the
  call proceeds exactly as the call without the key does: the key is dropped, not
  rejected. With a non-empty format and no private key, the fifth argument is the format
  and the sixth has data type \<open>ByteString\<close> and no content.
\<close>

theorem updateCertificate_gates_key_on_format:
  "((f = None \<or> f = Some [])
      \<longrightarrow> drop 4 (inputArguments (updateCertificate_methodToCall g t c i f (Some key)))
            = [\<lparr> dataType = Null, arrayType = None, value' = None \<rparr>,
               \<lparr> dataType = Null, arrayType = None, value' = None \<rparr>]
          \<and> updateCertificate session g t c i f (Some key)
            = updateCertificate session g t c i f None)
   \<and> (fmt \<noteq> []
      \<longrightarrow> drop 4 (inputArguments (updateCertificate_methodToCall g t c i (Some fmt) None))
            = [\<lparr> dataType = String, arrayType = None, value' = Some (VString fmt) \<rparr>,
               \<lparr> dataType = ByteString, arrayType = None, value' = None \<rparr>])"
  by (auto simp add: updateCertificate_def updateCertificate_methodToCall_def truthy_string_def)

theorem updateCertificate_gates_key_on_format_witness:
  "drop 4 (inputArguments
     (updateCertificate_methodToCall defaultApplicationGroup rsaSha256ApplicationCertificateType
        [0x30, 0x82] [] (Some []) (Some [0x2D, 0x2D])))
     = [\<lparr> dataType = Null, arrayType = None, value' = None \<rparr>,
        \<lparr> dataType = Null, arrayType = None, value' = None \<rparr>]
   \<and> drop 4 (inputArguments
       (updateCertificate_methodToCall defaultApplicationGroup rsaSha256ApplicationCertificateType
          [0x30, 0x82] [] None (Some [0x2D, 0x2D])))
     = [\<lparr> dataType = Null, arrayType = None, value' = None \<rparr>,
        \<lparr> dataType = Null, arrayType = None, value' = None \<rparr>]
   \<and> drop 4 (inputArguments
       (updateCertificate_methodToCall defaultApplicationGroup rsaSha256ApplicationCertificateType
          [0x30, 0x82] [] (Some ''PEM'') None))
     = [\<lparr> dataType = String, arrayType = None, value' = Some (VString ''PEM'') \<rparr>,
        \<lparr> dataType = ByteString, arrayType = None, value' = None \<rparr>]"
proof -
  note inst = updateCertificate_gates_key_on_format
    [where g = defaultApplicationGroup and t = rsaSha256ApplicationCertificateType
       and c = "[0x30, 0x82]" and i = "[]" and key = "[0x2D, 0x2D]" and fmt = "''PEM''"]
  show ?thesis
    using inst [where f = "Some []"] inst [where f = None]
    by simp
qed

end
